theory Spec2Isabelle
  imports Complex_Main
begin

section \<open>BloomBuddy growth tracker: \<open>contents/scripts/plant_data.py\<close>\<close>

text \<open>
  The script keeps one JSON record (\<open>last_opened\<close>, \<open>growth_stage\<close>, \<open>day_count\<close> and any
  unknown keys) in a file, advances the plant by the days elapsed since the record was
  last opened, optionally waters it, writes the record back and prints a status payload.

  The embedding follows the source function by function. What the script reads from
  its environment is made a parameter: the record file's content is a value of
  \<open>file_content\<close>, the result of \<open>date.today()\<close> is the argument \<open>today\<close> of every function
  that calls it. Every exception the script can raise on a record is a value of
  \<open>py_error\<close>, returned as \<open>Inl\<close>.
\<close>

subsection \<open>Calendar dates\<close>

text \<open>
  A \<open>datetime.date\<close> with its year, month and day. Python only ever builds dates that
  satisfy \<open>valid_date\<close>. \<open>toordinal\<close> is the proleptic Gregorian ordinal of the standard
  library (\<open>_ymd2ord\<close>, with its table of the days before each month from 1 to 12), so
  that \<open>(a - b).days\<close> is \<open>toordinal a - toordinal b\<close>.
\<close>

datatype date = Date nat nat nat

definition is_leap :: "nat \<Rightarrow> bool" where
  "is_leap y \<longleftrightarrow> y mod 4 = 0 \<and> (y mod 100 \<noteq> 0 \<or> y mod 400 = 0)"

definition days_in_month :: "nat \<Rightarrow> nat \<Rightarrow> nat" where
  "days_in_month y m =
     (if m = 2 then (if is_leap y then 29 else 28)
      else if m = 4 \<or> m = 6 \<or> m = 9 \<or> m = 11 then 30 else 31)"

definition days_before_year :: "nat \<Rightarrow> int" where
  "days_before_year y =
     (let y1 = int y - 1 in y1 * 365 + y1 div 4 - y1 div 100 + y1 div 400)"

definition days_before_month :: "nat \<Rightarrow> nat \<Rightarrow> int" where
  "days_before_month y m =
     int ([0, 0, 31, 59, 90, 120, 151, 181, 212, 243, 273, 304, 334] ! m)
       + (if 2 < m \<and> is_leap y then 1 else 0)"

fun valid_date :: "date \<Rightarrow> bool" where
  "valid_date (Date y m d) \<longleftrightarrow>
     1 \<le> y \<and> y \<le> 9999 \<and> 1 \<le> m \<and> m \<le> 12 \<and> 1 \<le> d \<and> d \<le> days_in_month y m"

fun toordinal :: "date \<Rightarrow> int" where
  "toordinal (Date y m d) = days_before_year y + days_before_month y m + int d"

definition days_between :: "date \<Rightarrow> date \<Rightarrow> int" where
  "days_between a b = toordinal a - toordinal b"

subsection \<open>Decimal text\<close>

definition is_digit :: "char \<Rightarrow> bool" where
  "is_digit c \<longleftrightarrow> 48 \<le> (of_char c :: nat) \<and> (of_char c :: nat) \<le> 57"

definition digit_val :: "char \<Rightarrow> nat" where
  "digit_val c = of_char c - 48"

definition digit_char :: "nat \<Rightarrow> char" where
  "digit_char n = ''0123456789'' ! n"

text \<open>
  \<open>date.isoformat()\<close>: \<open>"%04d-%02d-%02d" % (year, month, day)\<close>, for the years, months
  and days of a date (a year of at most four digits, a month and a day of at most two).
\<close>

definition pad2 :: "nat \<Rightarrow> string" where
  "pad2 n = (if n < 10 then [CHR ''0'', digit_char n]
             else [digit_char (n div 10 mod 10), digit_char (n mod 10)])"

definition pad4 :: "nat \<Rightarrow> string" where
  "pad4 n = [digit_char (n div 1000 mod 10), digit_char (n div 100 mod 10),
             digit_char (n div 10 mod 10), digit_char (n mod 10)]"

fun isoformat :: "date \<Rightarrow> string" where
  "isoformat (Date y m d) = pad4 y @ ''-'' @ pad2 m @ ''-'' @ pad2 d"

text \<open>
  \<open>datetime.strptime(s, "%Y-%m-%d").date()\<close> on ASCII text; \<open>None\<close> is its \<open>ValueError\<close>.
  The library matches the text against the pattern
  \<open>(\d\d\d\d)-(1[0-2]|0[1-9]|[1-9])-(3[01]|[12]\d|0[1-9]|[1-9]| [1-9])\<close>, rejects text left
  over after the match, and then rejects a year, month and day that are no date.
  Each alternative of the month is followed by a hyphen and the day is the end of the
  pattern, so the first alternative that matches is the one the library takes.
\<close>

fun parse_year :: "string \<Rightarrow> (nat \<times> string) option" where
  "parse_year (a # b # c # d # rest) =
     (if is_digit a \<and> is_digit b \<and> is_digit c \<and> is_digit d
      then Some (1000 * digit_val a + 100 * digit_val b + 10 * digit_val c + digit_val d, rest)
      else None)"
| "parse_year _ = None"

definition parse_month :: "string \<Rightarrow> (nat \<times> string) option" where
  "parse_month s =
     (case s of
        [] \<Rightarrow> None
      | a # t \<Rightarrow>
          (case t of
             b # rest \<Rightarrow>
               if a = CHR ''1'' \<and> is_digit b \<and> digit_val b \<le> 2 then Some (10 + digit_val b, rest)
               else if a = CHR ''0'' \<and> is_digit b \<and> 1 \<le> digit_val b then Some (digit_val b, rest)
               else if is_digit a \<and> 1 \<le> digit_val a then Some (digit_val a, t)
               else None
           | [] \<Rightarrow> if is_digit a \<and> 1 \<le> digit_val a then Some (digit_val a, t) else None))"

definition parse_day :: "string \<Rightarrow> (nat \<times> string) option" where
  "parse_day s =
     (case s of
        [] \<Rightarrow> None
      | a # t \<Rightarrow>
          (case t of
             b # rest \<Rightarrow>
               if a = CHR ''3'' \<and> is_digit b \<and> digit_val b \<le> 1 then Some (30 + digit_val b, rest)
               else if (a = CHR ''1'' \<or> a = CHR ''2'') \<and> is_digit b
                 then Some (10 * digit_val a + digit_val b, rest)
               else if a = CHR ''0'' \<and> is_digit b \<and> 1 \<le> digit_val b then Some (digit_val b, rest)
               else if is_digit a \<and> 1 \<le> digit_val a then Some (digit_val a, t)
               else if a = CHR '' '' \<and> is_digit b \<and> 1 \<le> digit_val b then Some (digit_val b, rest)
               else None
           | [] \<Rightarrow> if is_digit a \<and> 1 \<le> digit_val a then Some (digit_val a, t) else None))"

definition strptime :: "string \<Rightarrow> date option" where
  "strptime s =
     (case parse_year s of
        None \<Rightarrow> None
      | Some (y, s1) \<Rightarrow>
          (case s1 of
             [] \<Rightarrow> None
           | h1 # s2 \<Rightarrow>
               if h1 \<noteq> CHR ''-'' then None
               else (case parse_month s2 of
                  None \<Rightarrow> None
                | Some (m, s3) \<Rightarrow>
                    (case s3 of
                       [] \<Rightarrow> None
                     | h2 # s4 \<Rightarrow>
                         if h2 \<noteq> CHR ''-'' then None
                         else (case parse_day s4 of
                            None \<Rightarrow> None
                          | Some (d, s5) \<Rightarrow>
                              if s5 = [] \<and> valid_date (Date y m d) then Some (Date y m d)
                              else None)))))"

subsection \<open>JSON values and Python's \<open>int()\<close>\<close>

text \<open>
  What \<open>json.loads\<close> returns. A JSON object is a Python \<open>dict\<close> with string keys: a map.
  A Python \<open>float\<close> is kept as the rational it denotes, or as one of its special values;
  the script only ever converts it with \<open>int()\<close>, which truncates towards zero.
\<close>

datatype pyfloat = Finite rat | Infinite | NaN

datatype json =
    JNull
  | JBool bool
  | JInt int
  | JFloat pyfloat
  | JStr string
  | JArr "json list"
  | JObj "string \<Rightarrow> json option"

datatype py_error = TypeError | ValueError | OverflowError | AttributeError | IndexError

text \<open>
  \<open>int(s)\<close> for ASCII text \<open>s\<close>: surrounding whitespace is dropped, then an optional sign
  and decimal digits follow, where single underscores may separate digits. \<open>None\<close> is
  its \<open>ValueError\<close>. (The interpreter's limit on the number of digits is left out.)
\<close>

definition is_space :: "char \<Rightarrow> bool" where
  "is_space c \<longleftrightarrow> (of_char c :: nat) = 32 \<or> (9 \<le> (of_char c :: nat) \<and> (of_char c :: nat) \<le> 13)"

fun digits_from :: "int \<Rightarrow> string \<Rightarrow> int option" where
  "digits_from acc [] = Some acc"
| "digits_from acc [c] = (if is_digit c then Some (10 * acc + int (digit_val c)) else None)"
| "digits_from acc (c # d # cs) =
     (if is_digit c then digits_from (10 * acc + int (digit_val c)) (d # cs)
      else if c = CHR ''_'' \<and> is_digit d then digits_from (10 * acc + int (digit_val d)) cs
      else None)"

definition int_of_digits :: "string \<Rightarrow> int option" where
  "int_of_digits s =
     (case s of [] \<Rightarrow> None
      | c # cs \<Rightarrow> if is_digit c then digits_from (int (digit_val c)) cs else None)"

definition strip :: "string \<Rightarrow> string" where
  "strip s = rev (dropWhile is_space (rev (dropWhile is_space s)))"

definition int_of_str :: "string \<Rightarrow> int option" where
  "int_of_str s =
     (case strip s of
        [] \<Rightarrow> None
      | c # cs \<Rightarrow>
          if c = CHR ''-'' then map_option uminus (int_of_digits cs)
          else if c = CHR ''+'' then int_of_digits cs
          else int_of_digits (c # cs))"

definition trunc :: "rat \<Rightarrow> int" where
  "trunc r = (if 0 \<le> r then \<lfloor>r\<rfloor> else \<lceil>r\<rceil>)"

fun py_int :: "json \<Rightarrow> py_error + int" where
  "py_int (JInt n) = Inr n"
| "py_int (JBool b) = Inr (if b then 1 else 0)"
| "py_int (JFloat (Finite r)) = Inr (trunc r)"
| "py_int (JFloat Infinite) = Inl OverflowError"
| "py_int (JFloat NaN) = Inl ValueError"
| "py_int (JStr s) = (case int_of_str s of None \<Rightarrow> Inl ValueError | Some n \<Rightarrow> Inr n)"
| "py_int JNull = Inl TypeError"
| "py_int (JArr xs) = Inl TypeError"
| "py_int (JObj d) = Inl TypeError"

subsection \<open>The record file\<close>

text \<open>
  The file at \<open>DATA_FILE\<close>: absent; present with content at which \<open>read_text\<close> or
  \<open>json.loads\<close> raises the \<open>OSError\<close> or \<open>JSONDecodeError\<close> that \<open>load\<close> catches; or
  present with content that parses to a JSON value. The file is kept as the value that
  \<open>json.loads\<close> reads from it, and \<open>json.dumps\<close> followed by \<open>json.loads\<close> is taken to give
  a value back unchanged. Creating the directory and writing the file always succeed.
\<close>

datatype file_content = Missing | Corrupt | Parsed json

subsection \<open>PlantState\<close>

definition STAGE_NAMES :: "string list" where
  "STAGE_NAMES = [''seed'', ''sprout'', ''leaf'', ''bloom'']"

definition MAX_STAGE_INDEX :: int where
  "MAX_STAGE_INDEX = int (length STAGE_NAMES) - 1"

record PlantState =
  last_opened :: date
  growth_stage :: int
  day_count :: int
  extra :: "string \<Rightarrow> json option"

text \<open>\<open>cls(last_opened=today)\<close>: the dataclass defaults.\<close>

definition new_state :: "date \<Rightarrow> PlantState" where
  "new_state today = \<lparr>last_opened = today, growth_stage = 0, day_count = 1, extra = Map.empty\<rparr>"

text \<open>
  \<open>save\<close>: the dict display lists the three known keys first and \<open>**self.extra\<close> last, so
  an entry of \<open>extra\<close> replaces a known key of the same name (\<open>++\<close> prefers its right
  argument). The payload is what the file holds afterwards.
\<close>

definition payload :: "PlantState \<Rightarrow> (string \<Rightarrow> json option)" where
  "payload s =
     [''last_opened'' \<mapsto> JStr (isoformat (last_opened s)),
      ''growth_stage'' \<mapsto> JInt (growth_stage s),
      ''day_count'' \<mapsto> JInt (day_count s)] ++ extra s"

definition save :: "PlantState \<Rightarrow> file_content" where
  "save s = Parsed (JObj (payload s))"

text \<open>What the file holds under a key once a record has been written to it.\<close>

definition record_at :: "file_content \<Rightarrow> string \<Rightarrow> json option" where
  "record_at f k = (case f of Parsed (JObj d) \<Rightarrow> d k | _ \<Rightarrow> None)"

definition known_keys :: "string set" where
  "known_keys = {''last_opened'', ''growth_stage'', ''day_count''}"

text \<open>
  \<open>load\<close> returns the state and the file's content afterwards (the two default paths
  write the file). \<open>raw.get\<close> exists only on a dict. A \<open>last_opened\<close> that is missing or
  no string is the \<open>TypeError\<close> of \<open>strptime\<close>, one that is no date its \<open>ValueError\<close>;
  both are caught. The two \<open>int()\<close> calls are outside any \<open>try\<close>.
\<close>

definition load_last_opened :: "date \<Rightarrow> json option \<Rightarrow> date" where
  "load_last_opened today v =
     (case v of
        Some (JStr str) \<Rightarrow> (case strptime str of Some d \<Rightarrow> d | None \<Rightarrow> today)
      | _ \<Rightarrow> today)"

definition load :: "date \<Rightarrow> file_content \<Rightarrow> py_error + (PlantState \<times> file_content)" where
  "load today f =
     (case f of
        Missing \<Rightarrow> Inr (new_state today, save (new_state today))
      | Corrupt \<Rightarrow> Inr (new_state today, save (new_state today))
      | Parsed v \<Rightarrow>
          (case v of
             JObj raw \<Rightarrow>
               (let lo = load_last_opened today (raw ''last_opened'') in
                case py_int (case raw ''growth_stage'' of None \<Rightarrow> JInt 0 | Some g \<Rightarrow> g) of
                  Inl e \<Rightarrow> Inl e
                | Inr gs \<Rightarrow>
                    (case py_int (case raw ''day_count'' of
                                    None \<Rightarrow> JInt (max 1 (gs + 1)) | Some c \<Rightarrow> c) of
                       Inl e \<Rightarrow> Inl e
                     | Inr dc \<Rightarrow>
                         Inr (\<lparr>last_opened = lo,
                               growth_stage = max 0 (min gs MAX_STAGE_INDEX),
                               day_count = max 1 dc,
                               extra = raw |` (- known_keys)\<rparr>, f)))
           | _ \<Rightarrow> Inl AttributeError))"

definition advance_days :: "date \<Rightarrow> int \<Rightarrow> PlantState \<Rightarrow> PlantState" where
  "advance_days today days s =
     (if days \<le> 0 then s
      else s\<lparr>growth_stage := min (growth_stage s + days) MAX_STAGE_INDEX,
             day_count := day_count s + days,
             last_opened := today\<rparr>)"

definition water :: "date \<Rightarrow> PlantState \<Rightarrow> PlantState" where
  "water today s =
     (let s1 = (if growth_stage s < MAX_STAGE_INDEX
                then s\<lparr>growth_stage := growth_stage s + 1\<rparr> else s)
      in s1\<lparr>day_count := max (day_count s1) (growth_stage s1 + 1), last_opened := today\<rparr>)"

subsection \<open>The response and the run\<close>

text \<open>
  The dict that \<open>build_response\<close> returns has six fixed keys; the key \<open>image\<close> is the
  field \<open>image_path\<close>.
\<close>

record response =
  stage :: string
  stage_index :: int
  day :: int
  image_path :: string
  is_wilted :: bool
  days_idle :: int

text \<open>
  \<open>STAGE_NAMES[i]\<close>: an index from \<open>-4\<close> to \<open>-1\<close> selects from the end of the list, any
  other index outside \<open>0..3\<close> raises \<open>IndexError\<close>.
\<close>

definition stage_at :: "int \<Rightarrow> py_error + string" where
  "stage_at i =
     (let n = int (length STAGE_NAMES) in
      if 0 \<le> i \<and> i < n then Inr (STAGE_NAMES ! nat i)
      else if - n \<le> i \<and> i < 0 then Inr (STAGE_NAMES ! nat (i + n))
      else Inl IndexError)"

definition build_response :: "PlantState \<Rightarrow> int \<Rightarrow> py_error + response" where
  "build_response state idle =
     (case stage_at (growth_stage state) of
        Inl e \<Rightarrow> Inl e
      | Inr stage_name \<Rightarrow>
          Inr \<lparr>stage = stage_name,
               stage_index = growth_stage state,
               day = day_count state,
               image_path = ''assets/plant_'' @ stage_name @ ''.png'',
               is_wilted = (idle > 3),
               days_idle = idle\<rparr>)"

text \<open>
  \<open>main\<close> after \<open>parse_args\<close>: \<open>water_flag\<close> is \<open>args.water\<close>, and \<open>today\<close> is the date that
  every call of \<open>date.today()\<close> during the run returns. The result is the file's content
  afterwards and either the exception that escapes (the process then ends with a
  traceback and a non-zero status) or the printed response with the returned status.
\<close>

definition main :: "bool \<Rightarrow> date \<Rightarrow> file_content \<Rightarrow> file_content \<times> (py_error + response \<times> int)" where
  "main water_flag today f =
     (case load today f of
        Inl e \<Rightarrow> (f, Inl e)
      | Inr (state, f1) \<Rightarrow>
          (let days_since_last_open = days_between today (last_opened state);
               state1 = (if days_since_last_open > 0
                         then advance_days today days_since_last_open state else state);
               state2 = (if water_flag then water today state1 else state1);
               f2 = save state2
           in case build_response state2 days_since_last_open of
                Inl e \<Rightarrow> (f2, Inl e)
              | Inr r \<Rightarrow> (f2, Inr (r, 0))))"

subsection \<open>Sequences of the two mutating operations\<close>

text \<open>Each call carries the date that \<open>date.today()\<close> returns when it is made.\<close>

datatype op = Advance_days date int | Water date

fun apply_op :: "PlantState \<Rightarrow> op \<Rightarrow> PlantState" where
  "apply_op s (Advance_days today days) = advance_days today days s"
| "apply_op s (Water today) = water today s"

fun run_ops :: "PlantState \<Rightarrow> op list \<Rightarrow> PlantState" where
  "run_ops s [] = s"
| "run_ops s (x # xs) = run_ops (apply_op s x) xs"

section \<open>Properties\<close>

subsection \<open>Dates survive formatting and parsing\<close>

lemma below_ten: "n < 10 \<Longrightarrow> n \<in> {0, 1, 2, 3, 4, 5, 6, 7, 8, 9::nat}"
  by auto

lemma is_digit_digit_char: "n < 10 \<Longrightarrow> is_digit (digit_char n)"
  using below_ten [of n] by (auto simp: is_digit_def digit_char_def)

lemma digit_val_digit_char: "n < 10 \<Longrightarrow> digit_val (digit_char n) = n"
  using below_ten [of n] by (auto simp: digit_val_def digit_char_def)

lemma parse_year_digits:
  assumes "a < 10" "b < 10" "c < 10" "e < 10"
  shows "parse_year (digit_char a # digit_char b # digit_char c # digit_char e # rest)
         = Some (1000 * a + 100 * b + 10 * c + e, rest)"
  using assms by (simp add: is_digit_digit_char digit_val_digit_char)

lemma four_digits:
  assumes "y \<le> 9999"
  shows "1000 * (y div 1000 mod 10) + 100 * (y div 100 mod 10) + 10 * (y div 10 mod 10)
         + y mod 10 = (y::nat)"
proof -
  have a: "y div 1000 mod 10 = y div 1000" using assms by simp
  have e: "y div 1000 = y div 100 div 10" "y div 100 = y div 10 div 10"
    using div_mult2_eq [of y 100 10] div_mult2_eq [of y 10 10] by simp_all
  have b: "y div 100 = 10 * (y div 1000) + y div 100 mod 10"
    unfolding e(1) by simp
  have c: "y div 10 = 10 * (y div 100) + y div 10 mod 10"
    unfolding e(2) by simp
  have d: "y = 10 * (y div 10) + y mod 10"
    by simp
  show ?thesis using a b c d by linarith
qed

lemma parse_year_pad4:
  assumes "y \<le> 9999"
  shows "parse_year (pad4 y @ rest) = Some (y, rest)"
proof -
  have "parse_year (pad4 y @ rest)
        = Some (1000 * (y div 1000 mod 10) + 100 * (y div 100 mod 10) + 10 * (y div 10 mod 10)
                + y mod 10, rest)"
    unfolding pad4_def by (simp only: append.simps parse_year_digits mod_less_divisor zero_less_numeral)
  then show ?thesis
    by (simp only: four_digits [OF assms])
qed

lemma parse_month_pad2:
  assumes "1 \<le> m" "m \<le> 12"
  shows "parse_month (pad2 m @ rest) = Some (m, rest)"
proof -
  have "m \<in> {1, 2, 3, 4, 5, 6, 7, 8, 9, 10, 11, 12}"
    using assms by (simp; arith)
  then show ?thesis
    by (elim insertE emptyE; hypsubst;
        simp add: parse_month_def pad2_def digit_char_def is_digit_def digit_val_def)
qed

lemma parse_day_pad2:
  assumes "1 \<le> d" "d \<le> 31"
  shows "parse_day (pad2 d) = Some (d, [])"
proof -
  have "d \<in> {1, 2, 3, 4, 5, 6, 7, 8, 9, 10, 11, 12, 13, 14, 15, 16, 17, 18, 19, 20,
              21, 22, 23, 24, 25, 26, 27, 28, 29, 30, 31}"
    using assms by (simp; arith)
  then show ?thesis
    by (elim insertE emptyE; hypsubst;
        simp add: parse_day_def pad2_def digit_char_def is_digit_def digit_val_def)
qed

lemma days_in_month_le: "days_in_month y m \<le> 31"
  by (simp add: days_in_month_def)

lemma strptime_isoformat: "valid_date d \<Longrightarrow> strptime (isoformat d) = Some d"
proof (cases d)
  case (Date y m dd)
  assume "valid_date d"
  with Date have v: "valid_date (Date y m dd)" by simp
  then have r: "y \<le> 9999" "1 \<le> m" "m \<le> 12" "1 \<le> dd" "dd \<le> 31"
    using days_in_month_le [of y m] by auto
  have "strptime (pad4 y @ CHR ''-'' # pad2 m @ CHR ''-'' # pad2 dd) = Some (Date y m dd)"
    unfolding strptime_def
    using v by (simp add: parse_year_pad4 [OF r(1)] parse_month_pad2 [OF r(2,3)]
          parse_day_pad2 [OF r(4,5)])
  then show ?thesis
    by (simp add: Date)
qed

subsection \<open>What \<open>load\<close> returns, and what the operations keep\<close>

lemma strptime_valid: "strptime str = Some d \<Longrightarrow> valid_date d"
  by (auto simp: strptime_def split: option.splits list.splits if_splits prod.splits)

lemma MAX_STAGE_INDEX_3: "MAX_STAGE_INDEX = 3"
  by (simp add: MAX_STAGE_INDEX_def STAGE_NAMES_def)

lemma load_Inr_cases:
  assumes "load today f = Inr (s, f')"
  obtains (default) "f = Missing \<or> f = Corrupt" "s = new_state today"
      "f' = save (new_state today)"
  | (parsed) raw gs dc where "f = Parsed (JObj raw)" "f' = f"
      "py_int (case raw ''growth_stage'' of None \<Rightarrow> JInt 0 | Some g \<Rightarrow> g) = Inr gs"
      "py_int (case raw ''day_count'' of None \<Rightarrow> JInt (max 1 (gs + 1)) | Some c \<Rightarrow> c) = Inr dc"
      "s = \<lparr>last_opened = load_last_opened today (raw ''last_opened''),
            growth_stage = max 0 (min gs 3), day_count = max 1 dc,
            extra = raw |` (- known_keys)\<rparr>"
proof (cases f)
  case Missing
  with assms default show ?thesis by (auto simp: load_def)
next
  case Corrupt
  with assms default show ?thesis by (auto simp: load_def)
next
  case (Parsed v)
  show ?thesis
  proof (cases v)
    case (JObj raw)
    with assms Parsed parsed show ?thesis
      by (auto simp: load_def Let_def MAX_STAGE_INDEX_3 split: sum.splits)
  qed (use assms Parsed in \<open>simp_all add: load_def\<close>)
qed

lemma load_last_opened_valid:
  "valid_date today \<Longrightarrow> valid_date (load_last_opened today v)"
  by (auto simp: load_last_opened_def strptime_valid split: option.splits json.splits)

lemma extra_advance_days: "extra (advance_days today days s) = extra s"
  by (simp add: advance_days_def)

lemma extra_water: "extra (water today s) = extra s"
  by (simp add: water_def Let_def)

lemma extra_run_ops: "extra (run_ops s ops) = extra s"
proof (induction ops arbitrary: s)
  case Nil
  show ?case by simp
next
  case (Cons x xs)
  have "extra (apply_op s x) = extra s"
    by (cases x) (simp_all add: extra_advance_days extra_water)
  with Cons.IH [of "apply_op s x"] show ?case by simp
qed

lemma stage_advance_days:
  "0 \<le> growth_stage s \<Longrightarrow> growth_stage s \<le> 3 \<Longrightarrow>
   0 \<le> growth_stage (advance_days today days s) \<and> growth_stage (advance_days today days s) \<le> 3"
  by (simp add: advance_days_def MAX_STAGE_INDEX_3)

lemma stage_water:
  "0 \<le> growth_stage s \<Longrightarrow> growth_stage s \<le> 3 \<Longrightarrow>
   0 \<le> growth_stage (water today s) \<and> growth_stage (water today s) \<le> 3"
  by (simp add: water_def MAX_STAGE_INDEX_3)

lemma stage_run_ops:
  "0 \<le> growth_stage s \<Longrightarrow> growth_stage s \<le> 3 \<Longrightarrow>
   0 \<le> growth_stage (run_ops s ops) \<and> growth_stage (run_ops s ops) \<le> 3"
proof (induction ops arbitrary: s)
  case Nil
  then show ?case by simp
next
  case (Cons x xs)
  have "0 \<le> growth_stage (apply_op s x) \<and> growth_stage (apply_op s x) \<le> 3"
    using Cons.prems by (cases x) (simp_all add: stage_advance_days stage_water)
  then show ?case
    using Cons.IH [of "apply_op s x"] by simp
qed

lemma day_count_apply_op: "day_count s \<le> day_count (apply_op s x)"
  by (cases x) (simp_all add: advance_days_def water_def Let_def)

lemma day_count_run_ops: "day_count s \<le> day_count (run_ops s ops)"
proof (induction ops arbitrary: s)
  case Nil
  show ?case by simp
next
  case (Cons x xs)
  have "day_count s \<le> day_count (apply_op s x)"
    by (rule day_count_apply_op)
  also have "\<dots> \<le> day_count (run_ops (apply_op s x) xs)"
    by (rule Cons.IH)
  finally show ?case by simp
qed

text \<open>
  What every state returned by \<open>load\<close> satisfies, and why loading the record saved from
  such a state gives the state back.
\<close>

lemma load_stage_range:
  assumes "load today f = Inr (s, f')"
  shows "0 \<le> growth_stage s \<and> growth_stage s \<le> 3"
  using assms by (cases rule: load_Inr_cases) (simp_all add: new_state_def)

lemma load_day_count_pos:
  assumes "load today f = Inr (s, f')"
  shows "1 \<le> day_count s"
  using assms by (cases rule: load_Inr_cases) (simp_all add: new_state_def)

lemma load_extra_known:
  assumes "load today f = Inr (s, f')" "k \<in> known_keys"
  shows "extra s k = None"
  using assms by (cases rule: load_Inr_cases) (simp_all add: new_state_def)

lemma load_stage_clamped:
  assumes "raw ''growth_stage'' = Some (JInt g)" "load today (Parsed (JObj raw)) = Inr (s, f')"
  shows "growth_stage s = max 0 (min g 3)"
  using assms(2)
proof (cases rule: load_Inr_cases)
  case default
  then show ?thesis by auto
next
  case (parsed raw' gs dc)
  then show ?thesis using assms(1) by simp
qed

lemma payload_known:
  assumes "\<forall>k\<in>known_keys. extra s k = None"
  shows "payload s ''last_opened'' = Some (JStr (isoformat (last_opened s)))"
    "payload s ''growth_stage'' = Some (JInt (growth_stage s))"
    "payload s ''day_count'' = Some (JInt (day_count s))"
  using assms by (simp_all add: payload_def map_add_def known_keys_def)

lemma payload_unknown: "k \<notin> known_keys \<Longrightarrow> payload s k = extra s k"
  by (simp add: payload_def map_add_def known_keys_def split: option.splits)

lemma payload_restrict:
  assumes "\<forall>k\<in>known_keys. extra s k = None"
  shows "payload s |` (- known_keys) = extra s"
proof
  fix k
  show "(payload s |` (- known_keys)) k = extra s k"
    using assms by (cases "k \<in> known_keys") (simp_all add: payload_unknown)
qed

lemma load_save_fixpoint:
  assumes "valid_date (last_opened s)" "0 \<le> growth_stage s" "growth_stage s \<le> 3"
    "1 \<le> day_count s" "\<forall>k\<in>known_keys. extra s k = None"
  shows "load today (save s) = Inr (s, save s)"
proof -
  have lo: "load_last_opened today (payload s ''last_opened'') = last_opened s"
    by (simp add: payload_known(1) [OF assms(5)] load_last_opened_def
          strptime_isoformat [OF assms(1)])
  have gs: "py_int (case payload s ''growth_stage'' of None \<Rightarrow> JInt 0 | Some g \<Rightarrow> g)
            = Inr (growth_stage s)"
    by (simp add: payload_known(2) [OF assms(5)])
  have dc: "py_int (case payload s ''day_count'' of
                      None \<Rightarrow> JInt (max 1 (growth_stage s + 1)) | Some c \<Rightarrow> c)
            = Inr (day_count s)"
    by (simp add: payload_known(3) [OF assms(5)])
  have "load today (Parsed (JObj (payload s)))
        = Inr (\<lparr>last_opened = last_opened s,
                 growth_stage = max 0 (min (growth_stage s) MAX_STAGE_INDEX),
                 day_count = max 1 (day_count s),
                 extra = extra s\<rparr>, Parsed (JObj (payload s)))"
    unfolding load_def by (simp add: lo gs dc payload_restrict [OF assms(5)])
  also have "\<lparr>last_opened = last_opened s,
               growth_stage = max 0 (min (growth_stage s) MAX_STAGE_INDEX),
               day_count = max 1 (day_count s),
               extra = extra s\<rparr> = s"
    using assms(2-4) by (simp add: MAX_STAGE_INDEX_3)
  finally show ?thesis
    by (simp add: save_def)
qed

lemma load_last_opened_state_valid:
  assumes "valid_date today" "load today f = Inr (s, f')"
  shows "valid_date (last_opened s)"
  using assms(2)
  by (cases rule: load_Inr_cases) (simp_all add: new_state_def assms(1) load_last_opened_valid)

lemma load_then_fixpoint:
  assumes "valid_date today" "load today f = Inr (s, f')"
  shows "load later (save s) = Inr (s, save s)"
proof (rule load_save_fixpoint)
  show "valid_date (last_opened s)"
    by (rule load_last_opened_state_valid [OF assms])
  show "0 \<le> growth_stage s" "growth_stage s \<le> 3"
    using load_stage_range [OF assms(2)] by simp_all
  show "1 \<le> day_count s"
    by (rule load_day_count_pos [OF assms(2)])
  show "\<forall>k\<in>known_keys. extra s k = None"
    using load_extra_known [OF assms(2)] by blast
qed

lemma load_integer_record:
  assumes "raw ''growth_stage'' = Some (JInt g)" "raw ''day_count'' = Some (JInt c)"
  shows "load today (Parsed (JObj raw))
         = Inr (\<lparr>last_opened = load_last_opened today (raw ''last_opened''),
                  growth_stage = max 0 (min g 3), day_count = max 1 c,
                  extra = raw |` (- known_keys)\<rparr>, Parsed (JObj raw))"
  using assms by (simp add: load_def MAX_STAGE_INDEX_3)

subsection \<open>The two operations on a state\<close>

text \<open>
  C5. \<open>advance_days(days)\<close> with \<open>days \<le> 0\<close> changes nothing; with \<open>days > 0\<close> it sets
  \<open>growth_stage\<close> to \<open>min(growth_stage + days, 3)\<close>, adds exactly \<open>days\<close> to \<open>day_count\<close>,
  without a cap, and sets \<open>last_opened\<close> to today's date.
\<close>

theorem advance_days_effect:
  "(days \<le> 0 \<longrightarrow> advance_days today days s = s)
   \<and> (0 < days \<longrightarrow>
        growth_stage (advance_days today days s) = min (growth_stage s + days) 3
        \<and> day_count (advance_days today days s) = day_count s + days
        \<and> last_opened (advance_days today days s) = today)"
  by (simp add: advance_days_def MAX_STAGE_INDEX_3)

theorem advance_days_effect_witness:
  "(-2::int) \<le> 0
   \<and> advance_days (Date 2024 3 3) (-2) (new_state (Date 2024 2 27)) = new_state (Date 2024 2 27)
   \<and> (0::int) < 5
   \<and> growth_stage (advance_days (Date 2024 3 3) 5 (new_state (Date 2024 2 27))) = 3
   \<and> day_count (advance_days (Date 2024 3 3) 5 (new_state (Date 2024 2 27))) = 6
   \<and> last_opened (advance_days (Date 2024 3 3) 5 (new_state (Date 2024 2 27))) = Date 2024 3 3"
  using advance_days_effect [of "-2" "Date 2024 3 3" "new_state (Date 2024 2 27)"]
    advance_days_effect [of 5 "Date 2024 3 3" "new_state (Date 2024 2 27)"]
  by (simp add: new_state_def)

text \<open>
  C6. \<open>water()\<close> adds exactly 1 to a \<open>growth_stage\<close> below 3 and leaves a \<open>growth_stage\<close>
  of 3 at 3; it then sets \<open>day_count\<close> to the larger of \<open>day_count\<close> and the new
  \<open>growth_stage\<close> plus 1, so \<open>day_count\<close> does not decrease and ends at least the new
  \<open>growth_stage\<close> plus 1; and it sets \<open>last_opened\<close> to today's date.
\<close>

theorem water_effect:
  "(growth_stage s < 3 \<longrightarrow> growth_stage (water today s) = growth_stage s + 1)
   \<and> (growth_stage s = 3 \<longrightarrow> growth_stage (water today s) = 3)
   \<and> day_count (water today s) = max (day_count s) (growth_stage (water today s) + 1)
   \<and> day_count s \<le> day_count (water today s)
   \<and> growth_stage (water today s) + 1 \<le> day_count (water today s)
   \<and> last_opened (water today s) = today"
  by (simp add: water_def MAX_STAGE_INDEX_3)

theorem water_effect_witness:
  "growth_stage (new_state (Date 2024 2 27)) < 3
   \<and> growth_stage (water (Date 2024 3 3) (new_state (Date 2024 2 27))) = 1
   \<and> day_count (water (Date 2024 3 3) (new_state (Date 2024 2 27))) = 2
   \<and> growth_stage \<lparr>last_opened = Date 2024 2 27, growth_stage = 3, day_count = 9,
         extra = Map.empty\<rparr> = 3
   \<and> growth_stage (water (Date 2024 3 3) \<lparr>last_opened = Date 2024 2 27, growth_stage = 3,
         day_count = 9, extra = Map.empty\<rparr>) = 3
   \<and> day_count (water (Date 2024 3 3) \<lparr>last_opened = Date 2024 2 27, growth_stage = 3,
         day_count = 9, extra = Map.empty\<rparr>) = 9"
  using water_effect [of "new_state (Date 2024 2 27)" "Date 2024 3 3"]
    water_effect [of "\<lparr>last_opened = Date 2024 2 27, growth_stage = 3, day_count = 9,
      extra = Map.empty\<rparr>" "Date 2024 3 3"]
  by (simp add: new_state_def)

text \<open>
  C9. From a state with \<open>day_count \<ge> 1\<close>, after any sequence of \<open>advance_days(days)\<close>
  calls, for arbitrary integers \<open>days\<close>, and \<open>water()\<close> calls, \<open>day_count\<close> is at least
  the initial \<open>day_count\<close> and at least 1.
\<close>

theorem day_count_never_decreases:
  assumes "1 \<le> day_count s"
  shows "day_count s \<le> day_count (run_ops s ops) \<and> 1 \<le> day_count (run_ops s ops)"
  using assms day_count_run_ops [of s ops] by simp

theorem day_count_never_decreases_witness:
  "1 \<le> day_count (new_state (Date 2024 2 27))
   \<and> day_count (new_state (Date 2024 2 27))
       \<le> day_count (run_ops (new_state (Date 2024 2 27))
            [Advance_days (Date 2024 2 28) (-4), Water (Date 2024 2 28),
             Advance_days (Date 2024 3 3) 4, Water (Date 2024 3 3)])
   \<and> day_count (run_ops (new_state (Date 2024 2 27))
            [Advance_days (Date 2024 2 28) (-4), Water (Date 2024 2 28),
             Advance_days (Date 2024 3 3) 4, Water (Date 2024 3 3)]) = 6"
  using day_count_never_decreases [of "new_state (Date 2024 2 27)"
    "[Advance_days (Date 2024 2 28) (-4), Water (Date 2024 2 28),
      Advance_days (Date 2024 3 3) 4, Water (Date 2024 3 3)]"]
  by (simp add: new_state_def advance_days_def water_def MAX_STAGE_INDEX_3)

text \<open>
  C3. \<open>0 \<le> growth_stage \<le> 3\<close> holds for the state that \<open>load()\<close> returns, which clamps a
  stored integer outside the range into it; \<open>advance_days(days)\<close>, for every integer
  \<open>days\<close>, and \<open>water()\<close> keep it; so does every sequence of the two: no operation takes
  \<open>growth_stage\<close> out of \<open>[0,3]\<close>.
\<close>

theorem growth_stage_in_range:
  "(load today f = Inr (s0, f0) \<longrightarrow> 0 \<le> growth_stage s0 \<and> growth_stage s0 \<le> 3)
   \<and> (raw ''growth_stage'' = Some (JInt g) \<and> load today (Parsed (JObj raw)) = Inr (s1, f1)
        \<longrightarrow> growth_stage s1 = max 0 (min g 3))
   \<and> (0 \<le> growth_stage s \<and> growth_stage s \<le> 3 \<longrightarrow>
        0 \<le> growth_stage (advance_days t days s) \<and> growth_stage (advance_days t days s) \<le> 3)
   \<and> (0 \<le> growth_stage s \<and> growth_stage s \<le> 3 \<longrightarrow>
        0 \<le> growth_stage (water t s) \<and> growth_stage (water t s) \<le> 3)
   \<and> (0 \<le> growth_stage s \<and> growth_stage s \<le> 3 \<longrightarrow>
        0 \<le> growth_stage (run_ops s ops) \<and> growth_stage (run_ops s ops) \<le> 3)"
  using load_stage_range [of today f s0 f0] load_stage_clamped [of raw g today s1 f1]
    stage_advance_days [of s t days] stage_water [of s t] stage_run_ops [of s ops]
  by blast

theorem growth_stage_in_range_witness:
  "load (Date 2024 3 3) (Parsed (JObj [''growth_stage'' \<mapsto> JInt 9]))
     = Inr (\<lparr>last_opened = Date 2024 3 3, growth_stage = 3, day_count = 10, extra = Map.empty\<rparr>,
            Parsed (JObj [''growth_stage'' \<mapsto> JInt 9]))
   \<and> [''growth_stage'' \<mapsto> JInt 9] ''growth_stage'' = Some (JInt 9)
   \<and> growth_stage \<lparr>last_opened = Date 2024 3 3, growth_stage = 3, day_count = 10,
        extra = Map.empty\<rparr> = max 0 (min 9 3)
   \<and> (0::int) \<le> growth_stage (new_state (Date 2024 3 3))
   \<and> growth_stage (new_state (Date 2024 3 3)) \<le> 3
   \<and> growth_stage (advance_days (Date 2024 3 9) 6 (new_state (Date 2024 3 3))) = 3
   \<and> growth_stage (water (Date 2024 3 9) (new_state (Date 2024 3 3))) = 1
   \<and> growth_stage (run_ops (new_state (Date 2024 3 3))
        [Water (Date 2024 3 3), Water (Date 2024 3 3), Advance_days (Date 2024 3 4) 1,
         Water (Date 2024 3 4)]) = 3"
  using growth_stage_in_range [of "Date 2024 3 3" "Parsed (JObj [''growth_stage'' \<mapsto> JInt 9])"
    "\<lparr>last_opened = Date 2024 3 3, growth_stage = 3, day_count = 10, extra = Map.empty\<rparr>"
    "Parsed (JObj [''growth_stage'' \<mapsto> JInt 9])" "[''growth_stage'' \<mapsto> JInt 9]" 9
    "\<lparr>last_opened = Date 2024 3 3, growth_stage = 3, day_count = 10, extra = Map.empty\<rparr>"
    "Parsed (JObj [''growth_stage'' \<mapsto> JInt 9])" "new_state (Date 2024 3 3)"
    "Date 2024 3 9" 6
    "[Water (Date 2024 3 3), Water (Date 2024 3 3), Advance_days (Date 2024 3 4) 1,
      Water (Date 2024 3 4)]"]
  by (simp add: load_def load_last_opened_def known_keys_def MAX_STAGE_INDEX_3
        new_state_def advance_days_def water_def)

subsection \<open>The saved record\<close>

text \<open>
  C1, as the code has it. \<open>save()\<close> writes a record in which every key of \<open>extra\<close> holds
  the value \<open>extra\<close> gives it, also when the key is \<open>last_opened\<close>, \<open>growth_stage\<close> or
  \<open>day_count\<close>: the entry of \<open>extra\<close> takes precedence over the known key of the same
  name. A known key that \<open>extra\<close> does not contain holds the state's own value.
\<close>

theorem save_extra_takes_precedence:
  "(extra s k = Some v \<longrightarrow> record_at (save s) k = Some v)
   \<and> (extra s ''last_opened'' = None \<longrightarrow>
        record_at (save s) ''last_opened'' = Some (JStr (isoformat (last_opened s))))
   \<and> (extra s ''growth_stage'' = None \<longrightarrow>
        record_at (save s) ''growth_stage'' = Some (JInt (growth_stage s)))
   \<and> (extra s ''day_count'' = None \<longrightarrow>
        record_at (save s) ''day_count'' = Some (JInt (day_count s)))"
  by (simp add: record_at_def save_def payload_def map_add_def)

theorem save_extra_takes_precedence_witness:
  "extra \<lparr>last_opened = Date 2024 3 3, growth_stage = 1, day_count = 2,
       extra = [''growth_stage'' \<mapsto> JInt 7]\<rparr> ''growth_stage'' = Some (JInt 7)
   \<and> record_at (save \<lparr>last_opened = Date 2024 3 3, growth_stage = 1, day_count = 2,
       extra = [''growth_stage'' \<mapsto> JInt 7]\<rparr>) ''growth_stage'' = Some (JInt 7)
   \<and> extra \<lparr>last_opened = Date 2024 3 3, growth_stage = 1, day_count = 2,
       extra = [''nickname'' \<mapsto> JStr ''Fern'']\<rparr> ''nickname'' = Some (JStr ''Fern'')
   \<and> record_at (save \<lparr>last_opened = Date 2024 3 3, growth_stage = 1, day_count = 2,
       extra = [''nickname'' \<mapsto> JStr ''Fern'']\<rparr>) ''nickname'' = Some (JStr ''Fern'')
   \<and> extra \<lparr>last_opened = Date 2024 3 3, growth_stage = 1, day_count = 2,
       extra = [''nickname'' \<mapsto> JStr ''Fern'']\<rparr> ''last_opened'' = None
   \<and> record_at (save \<lparr>last_opened = Date 2024 3 3, growth_stage = 1, day_count = 2,
       extra = [''nickname'' \<mapsto> JStr ''Fern'']\<rparr>) ''last_opened'' = Some (JStr ''2024-03-03'')
   \<and> extra \<lparr>last_opened = Date 2024 3 3, growth_stage = 1, day_count = 2,
       extra = [''nickname'' \<mapsto> JStr ''Fern'']\<rparr> ''growth_stage'' = None
   \<and> record_at (save \<lparr>last_opened = Date 2024 3 3, growth_stage = 1, day_count = 2,
       extra = [''nickname'' \<mapsto> JStr ''Fern'']\<rparr>) ''growth_stage'' = Some (JInt 1)
   \<and> extra \<lparr>last_opened = Date 2024 3 3, growth_stage = 1, day_count = 2,
       extra = [''nickname'' \<mapsto> JStr ''Fern'']\<rparr> ''day_count'' = None
   \<and> record_at (save \<lparr>last_opened = Date 2024 3 3, growth_stage = 1, day_count = 2,
       extra = [''nickname'' \<mapsto> JStr ''Fern'']\<rparr>) ''day_count'' = Some (JInt 2)"
  using save_extra_takes_precedence [of "\<lparr>last_opened = Date 2024 3 3, growth_stage = 1,
      day_count = 2, extra = [''growth_stage'' \<mapsto> JInt 7]\<rparr>" "''growth_stage''" "JInt 7"]
    save_extra_takes_precedence [of "\<lparr>last_opened = Date 2024 3 3, growth_stage = 1,
      day_count = 2, extra = [''nickname'' \<mapsto> JStr ''Fern'']\<rparr>" "''nickname''" "JStr ''Fern''"]
  by (simp add: pad4_def pad2_def digit_char_def)

text \<open>
  C1, as the specification states it, fails: a state whose \<open>extra\<close> holds \<open>growth_stage\<close>
  is saved with the value of \<open>extra\<close>, not with the state's own \<open>growth_stage\<close>.
\<close>

theorem save_known_keys_precedence_counterexample:
  "extra \<lparr>last_opened = Date 2024 3 3, growth_stage = 1, day_count = 2,
       extra = [''growth_stage'' \<mapsto> JInt 7]\<rparr> ''growth_stage'' \<noteq> None
   \<and> record_at (save \<lparr>last_opened = Date 2024 3 3, growth_stage = 1, day_count = 2,
       extra = [''growth_stage'' \<mapsto> JInt 7]\<rparr>) ''growth_stage''
       \<noteq> Some (JInt (growth_stage \<lparr>last_opened = Date 2024 3 3, growth_stage = 1,
             day_count = 2, extra = [''growth_stage'' \<mapsto> JInt 7]\<rparr>))
   \<and> record_at (save \<lparr>last_opened = Date 2024 3 3, growth_stage = 1, day_count = 2,
       extra = [''growth_stage'' \<mapsto> JInt 7]\<rparr>) ''growth_stage'' = Some (JInt 7)"
  by (simp add: record_at_def save_def payload_def)

text \<open>
  C10. The state that \<open>load()\<close> returns has none of the keys \<open>last_opened\<close>,
  \<open>growth_stage\<close>, \<open>day_count\<close> in \<open>extra\<close>; \<open>advance_days\<close> and \<open>water\<close> leave \<open>extra\<close> as
  it is; so in every state reached from a loaded one by the two operations the
  record that \<open>save()\<close> writes holds the state's own values under the three known keys.
\<close>

theorem loaded_extra_never_collides:
  "extra (advance_days t days s0) = extra s0
   \<and> extra (water t s0) = extra s0
   \<and> (load today f = Inr (s, f') \<longrightarrow>
        (\<forall>k\<in>known_keys. extra s k = None)
        \<and> (\<forall>k\<in>known_keys. extra (run_ops s ops) k = None)
        \<and> record_at (save (run_ops s ops)) ''last_opened''
            = Some (JStr (isoformat (last_opened (run_ops s ops))))
        \<and> record_at (save (run_ops s ops)) ''growth_stage''
            = Some (JInt (growth_stage (run_ops s ops)))
        \<and> record_at (save (run_ops s ops)) ''day_count''
            = Some (JInt (day_count (run_ops s ops))))"
proof (intro conjI impI)
  assume l: "load today f = Inr (s, f')"
  show a: "\<forall>k\<in>known_keys. extra s k = None"
    using load_extra_known [OF l] by blast
  then show b: "\<forall>k\<in>known_keys. extra (run_ops s ops) k = None"
    by (simp add: extra_run_ops)
  show "record_at (save (run_ops s ops)) ''last_opened''
          = Some (JStr (isoformat (last_opened (run_ops s ops))))"
    using payload_known(1) [OF b] by (simp add: record_at_def save_def)
  show "record_at (save (run_ops s ops)) ''growth_stage''
          = Some (JInt (growth_stage (run_ops s ops)))"
    using payload_known(2) [OF b] by (simp add: record_at_def save_def)
  show "record_at (save (run_ops s ops)) ''day_count''
          = Some (JInt (day_count (run_ops s ops)))"
    using payload_known(3) [OF b] by (simp add: record_at_def save_def)
qed (simp_all add: extra_advance_days extra_water)

theorem loaded_extra_never_collides_witness:
  "load (Date 2024 3 3)
      (Parsed (JObj [''growth_stage'' \<mapsto> JInt 1, ''nickname'' \<mapsto> JStr ''Fern'']))
     = Inr (\<lparr>last_opened = Date 2024 3 3, growth_stage = 1, day_count = 2,
              extra = [''nickname'' \<mapsto> JStr ''Fern'']\<rparr>,
            Parsed (JObj [''growth_stage'' \<mapsto> JInt 1, ''nickname'' \<mapsto> JStr ''Fern'']))
   \<and> extra (run_ops \<lparr>last_opened = Date 2024 3 3, growth_stage = 1, day_count = 2,
              extra = [''nickname'' \<mapsto> JStr ''Fern'']\<rparr>
          [Advance_days (Date 2024 3 4) 1, Water (Date 2024 3 4)]) ''growth_stage'' = None
   \<and> record_at (save (run_ops \<lparr>last_opened = Date 2024 3 3, growth_stage = 1, day_count = 2,
              extra = [''nickname'' \<mapsto> JStr ''Fern'']\<rparr>
          [Advance_days (Date 2024 3 4) 1, Water (Date 2024 3 4)])) ''growth_stage''
       = Some (JInt 3)
   \<and> record_at (save (run_ops \<lparr>last_opened = Date 2024 3 3, growth_stage = 1, day_count = 2,
              extra = [''nickname'' \<mapsto> JStr ''Fern'']\<rparr>
          [Advance_days (Date 2024 3 4) 1, Water (Date 2024 3 4)])) ''day_count''
       = Some (JInt 4)
   \<and> record_at (save (run_ops \<lparr>last_opened = Date 2024 3 3, growth_stage = 1, day_count = 2,
              extra = [''nickname'' \<mapsto> JStr ''Fern'']\<rparr>
          [Advance_days (Date 2024 3 4) 1, Water (Date 2024 3 4)])) ''last_opened''
       = Some (JStr ''2024-03-04'')"
  using loaded_extra_never_collides [of "Date 2024 3 4" 1
    "\<lparr>last_opened = Date 2024 3 3, growth_stage = 1, day_count = 2,
      extra = [''nickname'' \<mapsto> JStr ''Fern'']\<rparr>"
    "Date 2024 3 3"
    "Parsed (JObj [''growth_stage'' \<mapsto> JInt 1, ''nickname'' \<mapsto> JStr ''Fern''])"
    "\<lparr>last_opened = Date 2024 3 3, growth_stage = 1, day_count = 2,
      extra = [''nickname'' \<mapsto> JStr ''Fern'']\<rparr>"
    "Parsed (JObj [''growth_stage'' \<mapsto> JInt 1, ''nickname'' \<mapsto> JStr ''Fern''])"
    "[Advance_days (Date 2024 3 4) 1, Water (Date 2024 3 4)]"]
  by (simp add: load_def load_last_opened_def known_keys_def MAX_STAGE_INDEX_3
        advance_days_def water_def pad4_def pad2_def digit_char_def)

subsection \<open>Loading a record\<close>

text \<open>
  C2 fails on the code. A record whose \<open>growth_stage\<close> is the string \<open>abc\<close> parses as JSON,
  but \<open>int("abc")\<close> raises \<open>ValueError\<close> outside any \<open>try\<close>: \<open>load\<close> raises, \<open>main\<close> does not
  return 0 and writes nothing. The same holds for a \<open>day_count\<close> that is \<open>null\<close>
  (\<open>TypeError\<close>), while a malformed \<open>last_opened\<close> is replaced by today's date.
\<close>

theorem load_malformed_field_raises:
  "load today (Parsed (JObj [''last_opened'' \<mapsto> JStr ''2024-03-03'',
       ''growth_stage'' \<mapsto> JStr ''abc'', ''day_count'' \<mapsto> JInt 1])) = Inl ValueError
   \<and> main water_flag today (Parsed (JObj [''last_opened'' \<mapsto> JStr ''2024-03-03'',
       ''growth_stage'' \<mapsto> JStr ''abc'', ''day_count'' \<mapsto> JInt 1]))
     = (Parsed (JObj [''last_opened'' \<mapsto> JStr ''2024-03-03'',
          ''growth_stage'' \<mapsto> JStr ''abc'', ''day_count'' \<mapsto> JInt 1]), Inl ValueError)
   \<and> load today (Parsed (JObj [''last_opened'' \<mapsto> JStr ''2024-03-03'',
       ''growth_stage'' \<mapsto> JInt 1, ''day_count'' \<mapsto> JNull])) = Inl TypeError
   \<and> (\<exists>s f. load today (Parsed (JObj [''last_opened'' \<mapsto> JStr ''soon'',
       ''growth_stage'' \<mapsto> JInt 1, ''day_count'' \<mapsto> JInt 1])) = Inr (s, f)
        \<and> last_opened s = today)"
  by (simp add: load_def main_def int_of_str_def strip_def is_space_def int_of_digits_def
        is_digit_def load_last_opened_def strptime_def)

text \<open>
  C4. \<open>load()\<close>, then \<open>save()\<close>, then \<open>load()\<close> again returns the state that the first
  \<open>load()\<close> returned, whatever the date of the second: \<open>last_opened\<close>, \<open>growth_stage\<close>,
  \<open>day_count\<close> and \<open>extra\<close> are the same. For a stored record whose \<open>growth_stage\<close> is an
  integer in \<open>[0,3]\<close> and whose \<open>day_count\<close> is an integer \<open>\<ge> 1\<close> the first \<open>load()\<close> does
  return, with these two values and with every unknown key in \<open>extra\<close>, and the record
  saved from it holds every unknown key with the value it was stored with. States are
  compared by the values of their four fields.
\<close>

theorem load_save_load:
  assumes "valid_date today"
  shows "(load today f = Inr (s, f') \<longrightarrow> load later (save s) = Inr (s, save s))
   \<and> (raw ''growth_stage'' = Some (JInt g) \<and> 0 \<le> g \<and> g \<le> 3
        \<and> raw ''day_count'' = Some (JInt c) \<and> 1 \<le> c \<and> k \<notin> known_keys \<longrightarrow>
        (\<exists>s1. load today (Parsed (JObj raw)) = Inr (s1, Parsed (JObj raw))
              \<and> growth_stage s1 = g \<and> day_count s1 = c
              \<and> extra s1 = raw |` (- known_keys)
              \<and> record_at (save s1) k = raw k
              \<and> load later (save s1) = Inr (s1, save s1)))"
proof (intro conjI impI)
  assume "load today f = Inr (s, f')"
  then show "load later (save s) = Inr (s, save s)"
    by (rule load_then_fixpoint [OF assms])
next
  assume a: "raw ''growth_stage'' = Some (JInt g) \<and> 0 \<le> g \<and> g \<le> 3
        \<and> raw ''day_count'' = Some (JInt c) \<and> 1 \<le> c \<and> k \<notin> known_keys"
  define s1 where "s1 = \<lparr>last_opened = load_last_opened today (raw ''last_opened''),
     growth_stage = max 0 (min g 3), day_count = max 1 c, extra = raw |` (- known_keys)\<rparr>"
  have l: "load today (Parsed (JObj raw)) = Inr (s1, Parsed (JObj raw))"
    unfolding s1_def using a by (intro load_integer_record) simp_all
  have "record_at (save s1) k = raw k"
    using a by (simp add: record_at_def save_def payload_unknown s1_def)
  moreover have "load later (save s1) = Inr (s1, save s1)"
    by (rule load_then_fixpoint [OF assms l])
  moreover have "growth_stage s1 = g" "day_count s1 = c" "extra s1 = raw |` (- known_keys)"
    using a by (simp_all add: s1_def)
  ultimately show "\<exists>s1. load today (Parsed (JObj raw)) = Inr (s1, Parsed (JObj raw))
              \<and> growth_stage s1 = g \<and> day_count s1 = c
              \<and> extra s1 = raw |` (- known_keys)
              \<and> record_at (save s1) k = raw k
              \<and> load later (save s1) = Inr (s1, save s1)"
    using l by blast
qed

theorem load_save_load_witness:
  "valid_date (Date 2024 3 3)
   \<and> load (Date 2024 3 3)
        (Parsed (JObj [''last_opened'' \<mapsto> JStr ''2024-2-7'', ''growth_stage'' \<mapsto> JInt 2,
           ''day_count'' \<mapsto> JInt 5, ''nickname'' \<mapsto> JStr ''Fern'']))
       = Inr (\<lparr>last_opened = Date 2024 2 7, growth_stage = 2, day_count = 5,
                extra = [''nickname'' \<mapsto> JStr ''Fern'']\<rparr>,
              Parsed (JObj [''last_opened'' \<mapsto> JStr ''2024-2-7'', ''growth_stage'' \<mapsto> JInt 2,
                ''day_count'' \<mapsto> JInt 5, ''nickname'' \<mapsto> JStr ''Fern'']))
   \<and> load (Date 2024 3 9)
        (save \<lparr>last_opened = Date 2024 2 7, growth_stage = 2, day_count = 5,
                extra = [''nickname'' \<mapsto> JStr ''Fern'']\<rparr>)
       = Inr (\<lparr>last_opened = Date 2024 2 7, growth_stage = 2, day_count = 5,
                extra = [''nickname'' \<mapsto> JStr ''Fern'']\<rparr>,
              save \<lparr>last_opened = Date 2024 2 7, growth_stage = 2, day_count = 5,
                extra = [''nickname'' \<mapsto> JStr ''Fern'']\<rparr>)
   \<and> record_at (save \<lparr>last_opened = Date 2024 2 7, growth_stage = 2, day_count = 5,
                extra = [''nickname'' \<mapsto> JStr ''Fern'']\<rparr>) ''last_opened''
       = Some (JStr ''2024-02-07'')"
proof -
  have v: "valid_date (Date 2024 3 3)"
    by (simp add: days_in_month_def)
  have p: "strptime ''2024-2-7'' = Some (Date 2024 2 7)"
    by (simp add: strptime_def parse_month_def parse_day_def is_digit_def digit_val_def
          days_in_month_def is_leap_def)
  have l: "load (Date 2024 3 3)
        (Parsed (JObj [''last_opened'' \<mapsto> JStr ''2024-2-7'', ''growth_stage'' \<mapsto> JInt 2,
           ''day_count'' \<mapsto> JInt 5, ''nickname'' \<mapsto> JStr ''Fern'']))
       = Inr (\<lparr>last_opened = Date 2024 2 7, growth_stage = 2, day_count = 5,
                extra = [''nickname'' \<mapsto> JStr ''Fern'']\<rparr>,
              Parsed (JObj [''last_opened'' \<mapsto> JStr ''2024-2-7'', ''growth_stage'' \<mapsto> JInt 2,
                ''day_count'' \<mapsto> JInt 5, ''nickname'' \<mapsto> JStr ''Fern'']))"
    by (simp add: load_def load_last_opened_def p known_keys_def MAX_STAGE_INDEX_3)
  have r: "record_at (save \<lparr>last_opened = Date 2024 2 7, growth_stage = 2, day_count = 5,
                extra = [''nickname'' \<mapsto> JStr ''Fern'']\<rparr>) ''last_opened''
       = Some (JStr ''2024-02-07'')"
    by (simp add: record_at_def save_def payload_def pad4_def pad2_def digit_char_def)
  show ?thesis
    using v l r load_save_load [OF v, of
      "Parsed (JObj [''last_opened'' \<mapsto> JStr ''2024-2-7'', ''growth_stage'' \<mapsto> JInt 2,
         ''day_count'' \<mapsto> JInt 5, ''nickname'' \<mapsto> JStr ''Fern''])"
      "\<lparr>last_opened = Date 2024 2 7, growth_stage = 2, day_count = 5,
        extra = [''nickname'' \<mapsto> JStr ''Fern'']\<rparr>"
      "Parsed (JObj [''last_opened'' \<mapsto> JStr ''2024-2-7'', ''growth_stage'' \<mapsto> JInt 2,
         ''day_count'' \<mapsto> JInt 5, ''nickname'' \<mapsto> JStr ''Fern''])"
      "Date 2024 3 9"]
    by simp
qed

subsection \<open>The response and a whole run\<close>

text \<open>
  C8. For a state with \<open>growth_stage\<close> in \<open>[0,3]\<close> and any integer \<open>days_idle\<close>,
  \<open>build_response\<close> returns the payload whose \<open>stage\<close> is the name at index
  \<open>growth_stage\<close> of seed, sprout, leaf, bloom, whose \<open>stage_index\<close> is \<open>growth_stage\<close>,
  whose \<open>day\<close> is \<open>day_count\<close>, whose \<open>image\<close> is \<open>assets/plant_<stage>.png\<close> for that
  name, whose \<open>is_wilted\<close> is true exactly when \<open>days_idle > 3\<close> and whose \<open>days_idle\<close> is
  the input. The function reads the state and returns the payload only: it has no
  state to return, which is how the embedding says that it modifies nothing.
\<close>

theorem build_response_payload:
  assumes "0 \<le> growth_stage s" "growth_stage s \<le> 3"
  shows "build_response s idle =
     Inr \<lparr>stage = [''seed'', ''sprout'', ''leaf'', ''bloom''] ! nat (growth_stage s),
          stage_index = growth_stage s,
          day = day_count s,
          image_path = ''assets/plant_'' @ [''seed'', ''sprout'', ''leaf'', ''bloom''] ! nat (growth_stage s)
                    @ ''.png'',
          is_wilted = (3 < idle),
          days_idle = idle\<rparr>"
  using assms by (simp add: build_response_def stage_at_def STAGE_NAMES_def Let_def)

theorem build_response_payload_witness:
  "(0::int) \<le> growth_stage \<lparr>last_opened = Date 2024 3 3, growth_stage = 2, day_count = 4,
       extra = Map.empty\<rparr>
   \<and> growth_stage \<lparr>last_opened = Date 2024 3 3, growth_stage = 2, day_count = 4,
       extra = Map.empty\<rparr> \<le> 3
   \<and> build_response \<lparr>last_opened = Date 2024 3 3, growth_stage = 2, day_count = 4,
       extra = Map.empty\<rparr> 4
     = Inr \<lparr>stage = ''leaf'', stage_index = 2, day = 4, image_path = ''assets/plant_leaf.png'',
            is_wilted = True, days_idle = 4\<rparr>"
  using build_response_payload [of "\<lparr>last_opened = Date 2024 3 3, growth_stage = 2,
    day_count = 4, extra = Map.empty\<rparr>" 4]
  by simp

text \<open>
  C7. A stored record whose \<open>last_opened\<close> is a date 5 days before today, whose
  \<open>growth_stage\<close> is 0 and whose \<open>day_count\<close> is 1: a run without the water flag writes a
  record with \<open>growth_stage\<close> 3 and \<open>day_count\<close> 6 and prints a response with \<open>days_idle\<close> 5
  and \<open>is_wilted\<close> true, with exit status 0.
\<close>

theorem five_days_idle_run:
  assumes "raw ''last_opened'' = Some (JStr str)" "strptime str = Some lo"
    "days_between today lo = 5"
    "raw ''growth_stage'' = Some (JInt 0)" "raw ''day_count'' = Some (JInt 1)"
  shows "main False today (Parsed (JObj raw))
     = (save \<lparr>last_opened = today, growth_stage = 3, day_count = 6,
               extra = raw |` (- known_keys)\<rparr>,
        Inr (\<lparr>stage = ''bloom'', stage_index = 3, day = 6, image_path = ''assets/plant_bloom.png'',
              is_wilted = True, days_idle = 5\<rparr>, 0))
   \<and> record_at (fst (main False today (Parsed (JObj raw)))) ''growth_stage'' = Some (JInt 3)
   \<and> record_at (fst (main False today (Parsed (JObj raw)))) ''day_count'' = Some (JInt 6)"
proof -
  have l: "load today (Parsed (JObj raw))
           = Inr (\<lparr>last_opened = lo, growth_stage = 0, day_count = 1,
                    extra = raw |` (- known_keys)\<rparr>, Parsed (JObj raw))"
    using assms by (simp add: load_integer_record load_last_opened_def)
  have m: "main False today (Parsed (JObj raw))
     = (save \<lparr>last_opened = today, growth_stage = 3, day_count = 6,
               extra = raw |` (- known_keys)\<rparr>,
        Inr (\<lparr>stage = ''bloom'', stage_index = 3, day = 6, image_path = ''assets/plant_bloom.png'',
              is_wilted = True, days_idle = 5\<rparr>, 0))"
    using assms(3)
    by (simp add: main_def l advance_days_def MAX_STAGE_INDEX_3 build_response_def
          stage_at_def STAGE_NAMES_def)
  have k: "\<forall>k\<in>known_keys. extra \<lparr>last_opened = today, growth_stage = 3, day_count = 6,
               extra = raw |` (- known_keys)\<rparr> k = None"
    by simp
  show ?thesis
    using payload_known(2,3) [OF k] by (simp add: m record_at_def save_def)
qed

theorem five_days_idle_run_witness:
  "[''last_opened'' \<mapsto> JStr ''2024-02-27'', ''growth_stage'' \<mapsto> JInt 0, ''day_count'' \<mapsto> JInt 1]
      ''last_opened'' = Some (JStr ''2024-02-27'')
   \<and> strptime ''2024-02-27'' = Some (Date 2024 2 27)
   \<and> days_between (Date 2024 3 3) (Date 2024 2 27) = 5
   \<and> snd (main False (Date 2024 3 3) (Parsed (JObj [''last_opened'' \<mapsto> JStr ''2024-02-27'',
        ''growth_stage'' \<mapsto> JInt 0, ''day_count'' \<mapsto> JInt 1])))
       = Inr (\<lparr>stage = ''bloom'', stage_index = 3, day = 6, image_path = ''assets/plant_bloom.png'',
              is_wilted = True, days_idle = 5\<rparr>, 0)
   \<and> record_at (fst (main False (Date 2024 3 3) (Parsed (JObj [''last_opened'' \<mapsto>
        JStr ''2024-02-27'', ''growth_stage'' \<mapsto> JInt 0, ''day_count'' \<mapsto> JInt 1]))))
        ''growth_stage'' = Some (JInt 3)
   \<and> record_at (fst (main False (Date 2024 3 3) (Parsed (JObj [''last_opened'' \<mapsto>
        JStr ''2024-02-27'', ''growth_stage'' \<mapsto> JInt 0, ''day_count'' \<mapsto> JInt 1]))))
        ''day_count'' = Some (JInt 6)"
proof -
  have p: "strptime ''2024-02-27'' = Some (Date 2024 2 27)"
    by (simp add: strptime_def parse_month_def parse_day_def is_digit_def digit_val_def
          days_in_month_def is_leap_def)
  have d: "days_between (Date 2024 3 3) (Date 2024 2 27) = 5"
    by (simp add: days_between_def days_before_year_def days_before_month_def is_leap_def)
  show ?thesis
    using p d five_days_idle_run [of "[''last_opened'' \<mapsto> JStr ''2024-02-27'',
      ''growth_stage'' \<mapsto> JInt 0, ''day_count'' \<mapsto> JInt 1]" "''2024-02-27''"
      "Date 2024 2 27" "Date 2024 3 3"]
    by (simp add: known_keys_def record_at_def save_def payload_def)
qed

end
